theory Spec2Isabelle
  imports Complex_Main "HOL-Library.Sublist" "HOL-Library.AList"
begin

section \<open>Text and bytes\<close>

text \<open>
  In the store and in the analyzer a Python \<^verbatim>\<open>str\<close> is modelled by its UTF-8 encoding,
  a \<^typ>\<open>string\<close>; a \<^verbatim>\<open>bytes\<close> object is a \<^typ>\<open>string\<close> as well. Equality, emptiness,
  concatenation and \<^verbatim>\<open>str.strip\<close> of well-formed text agree with the same operations on
  the encodings. The source's Chinese literals are written out byte by byte. In the
  catalogue, where lengths and \<^verbatim>\<open>str.lower\<close> matter, a \<^verbatim>\<open>str\<close> is the list of its code
  points.
\<close>

type_synonym bytes = string

text \<open>Truthiness of an \<^verbatim>\<open>Optional[str]\<close> or \<^verbatim>\<open>Optional[bytes]\<close>: \<^verbatim>\<open>None\<close> and the
  empty sequence are falsy.\<close>

fun truthy :: "'a list option \<Rightarrow> bool" where
  "truthy None = False"
| "truthy (Some s) = (s \<noteq> [])"

text \<open>\<^verbatim>\<open>x or d\<close> for an optional text \<open>x\<close>.\<close>

fun or_default :: "'a list option \<Rightarrow> 'a list \<Rightarrow> 'a list" where
  "or_default None d = d"
| "or_default (Some s) d = (if s \<noteq> [] then s else d)"

subsection \<open>Text as code points and \<^verbatim>\<open>str.lower\<close>\<close>

text \<open>
  A text of the catalogue: the list of its Unicode code points, so that its length is
  Python's \<^verbatim>\<open>len\<close> and a contiguous sublist is Python's \<^verbatim>\<open>in\<close> on \<^verbatim>\<open>str\<close>.
  \<^verbatim>\<open>str.lower\<close> is a function of Python's library with the Unicode case tables behind it:
  the operations of the catalogue take it as their parameter \<open>lower\<close>.
\<close>

type_synonym unicode = "nat list"

text \<open>The code points of an ASCII literal.\<close>

definition codes :: "string \<Rightarrow> unicode" where
  "codes s = map of_char s"

text \<open>
  An instance for the sample inputs only: \<^verbatim>\<open>str.lower\<close> on the texts in which the letters
  \<open>A\<close> to \<open>Z\<close> are the only characters that lower-casing changes (ASCII text, and text
  whose other characters have no lower-case form).
\<close>

definition ascii_lower :: "unicode \<Rightarrow> unicode" where
  "ascii_lower s = map (\<lambda>c. if 65 \<le> c \<and> c \<le> 90 then c + 32 else c) s"

subsection \<open>\<^verbatim>\<open>str.strip\<close>\<close>

text \<open>
  The code points Python's \<^verbatim>\<open>str.strip()\<close> removes (those with \<^verbatim>\<open>str.isspace\<close>), each in
  UTF-8: U+0009..U+000D, U+001C..U+0020, U+0085, U+00A0, U+1680, U+2000..U+200A, U+2028,
  U+2029, U+202F, U+205F, U+3000.
\<close>

definition whitespace :: "string list" where
  "whitespace =
   [[CHR 0x09], [CHR 0x0A], [CHR 0x0B], [CHR 0x0C], [CHR 0x0D],
    [CHR 0x1C], [CHR 0x1D], [CHR 0x1E], [CHR 0x1F], [CHR 0x20],
    [CHR 0xC2, CHR 0x85], [CHR 0xC2, CHR 0xA0], [CHR 0xE1, CHR 0x9A, CHR 0x80],
    [CHR 0xE2, CHR 0x80, CHR 0x80], [CHR 0xE2, CHR 0x80, CHR 0x81],
    [CHR 0xE2, CHR 0x80, CHR 0x82], [CHR 0xE2, CHR 0x80, CHR 0x83],
    [CHR 0xE2, CHR 0x80, CHR 0x84], [CHR 0xE2, CHR 0x80, CHR 0x85],
    [CHR 0xE2, CHR 0x80, CHR 0x86], [CHR 0xE2, CHR 0x80, CHR 0x87],
    [CHR 0xE2, CHR 0x80, CHR 0x88], [CHR 0xE2, CHR 0x80, CHR 0x89],
    [CHR 0xE2, CHR 0x80, CHR 0x8A], [CHR 0xE2, CHR 0x80, CHR 0xA8],
    [CHR 0xE2, CHR 0x80, CHR 0xA9], [CHR 0xE2, CHR 0x80, CHR 0xAF],
    [CHR 0xE2, CHR 0x81, CHR 0x9F], [CHR 0xE3, CHR 0x80, CHR 0x80]]"

text \<open>The whitespace code point a text starts with, if any (UTF-8 is prefix-free, so at
  most one entry matches).\<close>

definition leading_space :: "string \<Rightarrow> string option" where
  "leading_space s = find (\<lambda>sp. prefix sp s) whitespace"

definition trailing_space :: "string \<Rightarrow> string option" where
  "trailing_space s = find (\<lambda>sp. suffix sp s) whitespace"

function lstrip :: "string \<Rightarrow> string" where
  "lstrip s = (case leading_space s of
                 None \<Rightarrow> s
               | Some sp \<Rightarrow> lstrip (drop (length sp) s))"
  by pat_completeness auto
termination
proof (relation "measure length")
  fix s sp
  assume "leading_space s = Some sp"
  then have "sp \<in> set whitespace" and "prefix sp s"
    by (auto simp: leading_space_def find_Some_iff)
  then have "sp \<noteq> []" and "length sp \<le> length s"
    by (auto simp: whitespace_def prefix_length_le)
  then have "length s - length sp < length s"
    by (cases sp) auto
  then show "(drop (length sp) s, s) \<in> measure length"
    by simp
qed simp

function rstrip :: "string \<Rightarrow> string" where
  "rstrip s = (case trailing_space s of
                 None \<Rightarrow> s
               | Some sp \<Rightarrow> rstrip (take (length s - length sp) s))"
  by pat_completeness auto
termination
proof (relation "measure length")
  fix s sp
  assume "trailing_space s = Some sp"
  then have "sp \<in> set whitespace" and "suffix sp s"
    by (auto simp: trailing_space_def find_Some_iff)
  then have "sp \<noteq> []" and "length sp \<le> length s"
    by (auto simp: whitespace_def suffix_length_le)
  then have "length s - length sp < length s"
    by (cases sp) auto
  then show "(take (length s - length sp) s, s) \<in> measure length"
    by simp
qed simp

definition strip :: "string \<Rightarrow> string" where
  "strip s = rstrip (lstrip s)"

subsection \<open>\<^verbatim>\<open>base64.b64encode\<close>\<close>

definition b64_alphabet :: string where
  "b64_alphabet = ''ABCDEFGHIJKLMNOPQRSTUVWXYZabcdefghijklmnopqrstuvwxyz0123456789+/''"

definition b64_digit :: "nat \<Rightarrow> char" where
  "b64_digit n = b64_alphabet ! (n mod 64)"

fun b64encode :: "bytes \<Rightarrow> string" where
  "b64encode [] = []"
| "b64encode [a] =
     (let n = of_char a * 65536
      in [b64_digit (n div 262144), b64_digit (n div 4096), CHR ''='', CHR ''=''])"
| "b64encode [a, b] =
     (let n = of_char a * 65536 + of_char b * 256
      in [b64_digit (n div 262144), b64_digit (n div 4096), b64_digit (n div 64), CHR ''=''])"
| "b64encode (a # b # c # rest) =
     (let n = of_char a * 65536 + of_char b * 256 + of_char c
      in [b64_digit (n div 262144), b64_digit (n div 4096), b64_digit (n div 64), b64_digit n]
         @ b64encode rest)"

section \<open>Faults, the outside world and effects\<close>

text \<open>A raised \<^verbatim>\<open>Exception\<close>, with the text \<^verbatim>\<open>str(e)\<close> gives for it.\<close>

datatype exn = Exception string

fun str_exn :: "exn \<Rightarrow> string" where
  "str_exn (Exception m) = m"

text \<open>
  The history of a run: one event for every invocation of a method of the analyzer or
  of a function of the store module, and one for every request to a collaborator
  outside the plugin. The events are not part of the source; they are what a test
  double would count.
\<close>

datatype event =
    Call_get_existing_description
  | Call_fetch_avatar
  | Call_analyze_avatar
  | Call_store_description
  | Call_get_avatar_description
  | Call_set_avatar_description
  | Person_api
  | Db_select
  | Db_update
  | Db_insert
  | Http_get
  | Llm_models
  | Llm_request

text \<open>A row of the table \<^verbatim>\<open>avatar_descriptions\<close> (class \<^verbatim>\<open>AvatarDescription\<close>).\<close>

record avatar_description =
  person_id :: string
  platform :: string
  user_id :: string
  head_description :: "string option"
  analyzed_at :: "real option"
  avatar_url :: "string option"

record world =
  table :: "avatar_description list"
  trace :: "event list"

text \<open>A model set of the registry (\<^verbatim>\<open>llm_api.get_available_models()\<close> maps logical names
  to them); an object of this kind is truthy.\<close>

datatype task_config = TaskConfig "string list"

text \<open>
  What the collaborators answer, each as a function of the history so far (so that two
  requests of one run may be answered differently); \<open>Inl\<close> is a raised exception.
  \<^item> \<open>get_person_id h platform user_id\<close>: \<^verbatim>\<open>person_api.get_person_id\<close>;
  \<^item> \<open>db_fault h\<close>: the exception the database raises on the next statement, if any;
  \<^item> \<open>time_time h\<close>: \<^verbatim>\<open>time.time()\<close>;
  \<^item> \<open>session_get h url\<close>: the status and the body of the HTTP response;
  \<^item> \<open>get_available_models h\<close>: the model registry;
  \<^item> \<open>generate_response_for_image h model prompt image_base64 image_format\<close>: the text
    of the model's answer (building the \<^verbatim>\<open>LLMRequest\<close> included).
\<close>

record env =
  get_person_id :: "event list \<Rightarrow> string \<Rightarrow> string \<Rightarrow> exn + string option"
  db_fault :: "event list \<Rightarrow> exn option"
  time_time :: "event list \<Rightarrow> real"
  session_get :: "event list \<Rightarrow> string \<Rightarrow> exn + nat \<times> bytes"
  get_available_models :: "event list \<Rightarrow> exn + (string \<Rightarrow> task_config option)"
  generate_response_for_image ::
    "event list \<Rightarrow> task_config \<Rightarrow> string \<Rightarrow> string \<Rightarrow> string \<Rightarrow> exn + string option"

text \<open>A computation: it runs in a world and ends with a value or a raised exception, in
  the world it has reached.\<close>

type_synonym 'a prog = "world \<Rightarrow> (exn + 'a) \<times> world"

definition returnP :: "'a \<Rightarrow> 'a prog" where
  "returnP x w = (Inr x, w)"

text \<open>\<^verbatim>\<open>raise e\<close>\<close>

definition raiseP :: "exn \<Rightarrow> 'a prog" where
  "raiseP e w = (Inl e, w)"

definition bindP :: "'a prog \<Rightarrow> ('a \<Rightarrow> 'b prog) \<Rightarrow> 'b prog" where
  "bindP m f w = (case m w of
                    (Inl e, w') \<Rightarrow> (Inl e, w')
                  | (Inr x, w') \<Rightarrow> f x w')"

text \<open>\<^verbatim>\<open>try: m  except Exception as e: h e\<close>\<close>

definition tryP :: "'a prog \<Rightarrow> (exn \<Rightarrow> 'a prog) \<Rightarrow> 'a prog" where
  "tryP m h w = (case m w of
                   (Inl e, w') \<Rightarrow> h e w'
                 | (Inr x, w') \<Rightarrow> (Inr x, w'))"

definition invoked :: "event \<Rightarrow> unit prog" where
  "invoked ev w = (Inr (), w\<lparr>trace := trace w @ [ev]\<rparr>)"

text \<open>A request to a collaborator: answered from the history before it, then recorded.\<close>

definition external :: "event \<Rightarrow> (event list \<Rightarrow> exn + 'a) \<Rightarrow> 'a prog" where
  "external ev answer w = (answer (trace w), w\<lparr>trace := trace w @ [ev]\<rparr>)"

section \<open>The store (\<^verbatim>\<open>models.py\<close>)\<close>

definition db_statement :: "env \<Rightarrow> event \<Rightarrow> unit prog" where
  "db_statement env ev =
     external ev (\<lambda>h. case db_fault env h of Some e \<Rightarrow> Inl e | None \<Rightarrow> Inr ())"

text \<open>\<^verbatim>\<open>AvatarDescription.get_or_none(AvatarDescription.person_id == person_id)\<close>\<close>

definition get_or_none :: "env \<Rightarrow> string \<Rightarrow> avatar_description option prog" where
  "get_or_none env pid =
     bindP (db_statement env Db_select) (\<lambda>_ w.
       (Inr (find (\<lambda>r. person_id r = pid) (table w)), w))"

text \<open>\<^verbatim>\<open>record.save()\<close> of a row read from the table: the row is found again by its unique
  column \<open>person_id\<close>, which the code never changes.\<close>

definition save :: "env \<Rightarrow> avatar_description \<Rightarrow> unit prog" where
  "save env record =
     bindP (db_statement env Db_update) (\<lambda>_ w.
       (Inr (), w\<lparr>table := map (\<lambda>r. if person_id r = person_id record then record else r)
                               (table w)\<rparr>))"

text \<open>\<^verbatim>\<open>AvatarDescription.create(...)\<close>; the column \<open>person_id\<close> is declared
  \<^verbatim>\<open>unique=True\<close>, so the database refuses a second row with the same value.\<close>

definition create :: "env \<Rightarrow> avatar_description \<Rightarrow> unit prog" where
  "create env record =
     bindP (db_statement env Db_insert) (\<lambda>_ w.
       if person_id record \<in> set (map person_id (table w))
       then (Inl (Exception ''UNIQUE constraint failed: avatar_descriptions.person_id''), w)
       else (Inr (), w\<lparr>table := table w @ [record]\<rparr>))"

definition get_avatar_description :: "env \<Rightarrow> string \<Rightarrow> string option prog" where
  "get_avatar_description env pid =
     bindP (invoked Call_get_avatar_description) (\<lambda>_.
       tryP
         (bindP (get_or_none env pid) (\<lambda>record.
            returnP (case record of Some r \<Rightarrow> head_description r | None \<Rightarrow> None)))
         (\<lambda>e. returnP None))"

definition set_avatar_description ::
    "env \<Rightarrow> string \<Rightarrow> string \<Rightarrow> string \<Rightarrow> string \<Rightarrow> string option \<Rightarrow> bool prog" where
  "set_avatar_description env pid plat uid description url =
     bindP (invoked Call_set_avatar_description) (\<lambda>_.
       tryP
         (bindP (get_or_none env pid) (\<lambda>record.
            case record of
              Some r \<Rightarrow>
                bindP (\<lambda>w. (Inr (time_time env (trace w)), w)) (\<lambda>now.
                bindP (save env (r\<lparr>head_description := Some description,
                                    analyzed_at := Some now,
                                    avatar_url := (if truthy url then url else avatar_url r)\<rparr>))
                  (\<lambda>_. returnP True))
            | None \<Rightarrow>
                bindP (\<lambda>w. (Inr (time_time env (trace w)), w)) (\<lambda>now.
                bindP (create env \<lparr>person_id = pid, platform = plat, user_id = uid,
                                     head_description = Some description,
                                     analyzed_at = Some now, avatar_url = url\<rparr>)
                  (\<lambda>_. returnP True))))
         (\<lambda>e. returnP False))"

section \<open>The analyzer (\<^verbatim>\<open>avatar_analyzer.py\<close>)\<close>

definition default_prompt :: string where
  "default_prompt =
     [CHR 0xE8, CHR 0xBF, CHR 0x99, CHR 0xE6, CHR 0x98, CHR 0xAF, CHR 0xE4, CHR 0xB8,
      CHR 0x80, CHR 0xE4, CHR 0xB8, CHR 0xAA, CHR 0xE7, CHR 0x94, CHR 0xA8, CHR 0xE6,
      CHR 0x88, CHR 0xB7, CHR 0xE7, CHR 0x9A, CHR 0x84, CHR 0x51, CHR 0x51, CHR 0xE5,
      CHR 0xA4, CHR 0xB4, CHR 0xE5, CHR 0x83, CHR 0x8F, CHR 0xEF, CHR 0xBC, CHR 0x8C,
      CHR 0xE8, CHR 0xAF, CHR 0xB7, CHR 0xE6, CHR 0xA0, CHR 0xB9, CHR 0xE6, CHR 0x8D,
      CHR 0xAE, CHR 0xE5, CHR 0x9B, CHR 0xBE, CHR 0xE7, CHR 0x89, CHR 0x87, CHR 0xE5,
      CHR 0x86, CHR 0x85, CHR 0xE5, CHR 0xAE, CHR 0xB9, CHR 0xE5, CHR 0x88, CHR 0x86,
      CHR 0xE6, CHR 0x9E, CHR 0x90, CHR 0xE5, CHR 0xB9, CHR 0xB6, CHR 0xE6, CHR 0x8F,
      CHR 0x8F, CHR 0xE8, CHR 0xBF, CHR 0xB0, CHR 0xEF, CHR 0xBC, CHR 0x9A, CHR 0x0A,
      CHR 0x31, CHR 0x2E, CHR 0x20, CHR 0xE5, CHR 0xA6, CHR 0x82, CHR 0xE6, CHR 0x9E,
      CHR 0x9C, CHR 0xE6, CHR 0x98, CHR 0xAF, CHR 0xE7, CHR 0x9C, CHR 0x9F, CHR 0xE4,
      CHR 0xBA, CHR 0xBA, CHR 0xE7, CHR 0x85, CHR 0xA7, CHR 0xE7, CHR 0x89, CHR 0x87,
      CHR 0xEF, CHR 0xBC, CHR 0x8C, CHR 0xE6, CHR 0x8F, CHR 0x8F, CHR 0xE8, CHR 0xBF,
      CHR 0xB0, CHR 0xE5, CHR 0x85, CHR 0xB6, CHR 0xE5, CHR 0xA4, CHR 0xA7, CHR 0xE8,
      CHR 0x87, CHR 0xB4, CHR 0xE7, CHR 0x89, CHR 0xB9, CHR 0xE5, CHR 0xBE, CHR 0x81,
      CHR 0xE5, CHR 0x92, CHR 0x8C, CHR 0xE9, CHR 0xA3, CHR 0x8E, CHR 0xE6, CHR 0xA0,
      CHR 0xBC, CHR 0x0A, CHR 0x32, CHR 0x2E, CHR 0x20, CHR 0xE5, CHR 0xA6, CHR 0x82,
      CHR 0xE6, CHR 0x9E, CHR 0x9C, CHR 0xE6, CHR 0x98, CHR 0xAF, CHR 0xE5, CHR 0x8A,
      CHR 0xA8, CHR 0xE6, CHR 0xBC, CHR 0xAB, CHR 0x2F, CHR 0xE5, CHR 0x8D, CHR 0xA1,
      CHR 0xE9, CHR 0x80, CHR 0x9A, CHR 0xE5, CHR 0xBD, CHR 0xA2, CHR 0xE8, CHR 0xB1,
      CHR 0xA1, CHR 0xEF, CHR 0xBC, CHR 0x8C, CHR 0xE6, CHR 0x8F, CHR 0x8F, CHR 0xE8,
      CHR 0xBF, CHR 0xB0, CHR 0xE8, CHR 0xA7, CHR 0x92, CHR 0xE8, CHR 0x89, CHR 0xB2,
      CHR 0xE7, CHR 0x89, CHR 0xB9, CHR 0xE7, CHR 0x82, CHR 0xB9, CHR 0x0A, CHR 0x33,
      CHR 0x2E, CHR 0x20, CHR 0xE5, CHR 0xA6, CHR 0x82, CHR 0xE6, CHR 0x9E, CHR 0x9C,
      CHR 0xE6, CHR 0x98, CHR 0xAF, CHR 0xE9, CHR 0xA3, CHR 0x8E, CHR 0xE6, CHR 0x99,
      CHR 0xAF, CHR 0x2F, CHR 0xE7, CHR 0x89, CHR 0xA9, CHR 0xE5, CHR 0x93, CHR 0x81,
      CHR 0xEF, CHR 0xBC, CHR 0x8C, CHR 0xE6, CHR 0x8F, CHR 0x8F, CHR 0xE8, CHR 0xBF,
      CHR 0xB0, CHR 0xE5, CHR 0x9B, CHR 0xBE, CHR 0xE7, CHR 0x89, CHR 0x87, CHR 0xE4,
      CHR 0xB8, CHR 0xBB, CHR 0xE9, CHR 0xA2, CHR 0x98, CHR 0x0A, CHR 0xE8, CHR 0xAF,
      CHR 0xB7, CHR 0xE7, CHR 0x94, CHR 0xA8, CHR 0xE7, CHR 0xAE, CHR 0x80, CHR 0xE6,
      CHR 0xB4, CHR 0x81, CHR 0xE7, CHR 0x9A, CHR 0x84, CHR 0xE8, CHR 0xAF, CHR 0xAD,
      CHR 0xE8, CHR 0xA8, CHR 0x80, CHR 0xEF, CHR 0xBC, CHR 0x88, CHR 0x35, CHR 0x30,
      CHR 0xE5, CHR 0xAD, CHR 0x97, CHR 0xE5, CHR 0x86, CHR 0x85, CHR 0xEF, CHR 0xBC,
      CHR 0x89, CHR 0xE6, CHR 0x80, CHR 0xBB, CHR 0xE7, CHR 0xBB, CHR 0x93, CHR 0xE8,
      CHR 0xBF, CHR 0x99, CHR 0xE4, CHR 0xB8, CHR 0xAA, CHR 0xE5, CHR 0xA4, CHR 0xB4,
      CHR 0xE5, CHR 0x83, CHR 0x8F, CHR 0xE7, CHR 0xBB, CHR 0x99, CHR 0xE4, CHR 0xBA,
      CHR 0xBA, CHR 0xE7, CHR 0x9A, CHR 0x84, CHR 0xE5, CHR 0x8D, CHR 0xB0, CHR 0xE8,
      CHR 0xB1, CHR 0xA1, CHR 0xE3, CHR 0x80, CHR 0x82]"

text \<open>The message of a failed fetch.\<close>

definition msg_fetch_failed :: string where
  "msg_fetch_failed =
     [CHR 0xE6, CHR 0x97, CHR 0xA0, CHR 0xE6, CHR 0xB3, CHR 0x95, CHR 0xE8, CHR 0x8E,
      CHR 0xB7, CHR 0xE5, CHR 0x8F, CHR 0x96, CHR 0xE7, CHR 0x94, CHR 0xA8, CHR 0xE6,
      CHR 0x88, CHR 0xB7, CHR 0xE5, CHR 0xA4, CHR 0xB4, CHR 0xE5, CHR 0x83, CHR 0x8F]"

text \<open>The message of a failed analysis.\<close>

definition msg_analysis_failed :: string where
  "msg_analysis_failed =
     [CHR 0xE5, CHR 0xA4, CHR 0xB4, CHR 0xE5, CHR 0x83, CHR 0x8F, CHR 0xE5, CHR 0x88,
      CHR 0x86, CHR 0xE6, CHR 0x9E, CHR 0x90, CHR 0xE5, CHR 0xA4, CHR 0xB1, CHR 0xE8,
      CHR 0xB4, CHR 0xA5]"

text \<open>The message of a failed store.\<close>

definition msg_store_failed :: string where
  "msg_store_failed =
     [CHR 0xE5, CHR 0xAD, CHR 0x98, CHR 0xE5, CHR 0x82, CHR 0xA8, CHR 0xE6, CHR 0x8F,
      CHR 0x8F, CHR 0xE8, CHR 0xBF, CHR 0xB0, CHR 0xE5, CHR 0xA4, CHR 0xB1, CHR 0xE8,
      CHR 0xB4, CHR 0xA5]"

text \<open>The description returned when the avatar cannot be analysed.\<close>

definition fallback_description :: string where
  "fallback_description =
     [CHR 0xE4, CHR 0xBD, CHR 0xBF, CHR 0xE7, CHR 0x94, CHR 0xA8, CHR 0xE9, CHR 0xBB,
      CHR 0x98, CHR 0xE8, CHR 0xAE, CHR 0xA4, CHR 0xE5, CHR 0xA4, CHR 0xB4, CHR 0xE5,
      CHR 0x83, CHR 0x8F, CHR 0xE6, CHR 0x88, CHR 0x96, CHR 0xE6, CHR 0x97, CHR 0xA0,
      CHR 0xE6, CHR 0xB3, CHR 0x95, CHR 0xE5, CHR 0x88, CHR 0x86, CHR 0xE6, CHR 0x9E,
      CHR 0x90, CHR 0xE7, CHR 0x9A, CHR 0x84, CHR 0xE5, CHR 0xA4, CHR 0xB4, CHR 0xE5,
      CHR 0x83, CHR 0x8F, CHR 0xE5, CHR 0x9B, CHR 0xBE, CHR 0xE7, CHR 0x89, CHR 0x87]"

text \<open>\<^verbatim>\<open>_get_existing_description\<close>\<close>

definition get_existing_description :: "env \<Rightarrow> string \<Rightarrow> string \<Rightarrow> string option prog" where
  "get_existing_description env uid plat =
     bindP (invoked Call_get_existing_description) (\<lambda>_.
       tryP
         (bindP (external Person_api (\<lambda>h. get_person_id env h plat uid)) (\<lambda>pid.
            case pid of
              None \<Rightarrow> returnP None
            | Some p \<Rightarrow>
                if p = [] then returnP None
                else bindP (get_avatar_description env p) (\<lambda>description.
                       returnP description)))
         (\<lambda>e. returnP None))"

definition avatar_endpoint :: "string \<Rightarrow> string" where
  "avatar_endpoint uid =
     ''http://q.qlogo.cn/headimg_dl?dst_uin='' @ uid @ ''&spec=640&img_type=jpg''"

text \<open>\<^verbatim>\<open>_fetch_avatar\<close>\<close>

definition fetch_avatar :: "env \<Rightarrow> string \<Rightarrow> string \<Rightarrow> bytes option prog" where
  "fetch_avatar env uid plat =
     bindP (invoked Call_fetch_avatar) (\<lambda>_.
       tryP
         (if plat = ''discord'' then returnP None
          else if plat = ''qq'' then
            bindP (external Http_get (\<lambda>h. session_get env h (avatar_endpoint uid)))
              (\<lambda>(status, body).
                 if status = 200 then returnP (Some body) else returnP None)
          else returnP None)
         (\<lambda>e. returnP None))"

text \<open>\<^verbatim>\<open>_analyze_avatar\<close>\<close>

definition analyze_avatar :: "env \<Rightarrow> bytes \<Rightarrow> string option \<Rightarrow> string prog" where
  "analyze_avatar env avatar_data custom_prompt =
     bindP (invoked Call_analyze_avatar) (\<lambda>_.
       tryP
         (let image_base64 = b64encode avatar_data;
              prompt = or_default custom_prompt default_prompt
          in bindP (external Llm_models (get_available_models env)) (\<lambda>models.
               case models ''vision_general'' of
                 None \<Rightarrow> returnP fallback_description
               | Some vision_model \<Rightarrow>
                   bindP (external Llm_request (\<lambda>h.
                            generate_response_for_image env h vision_model
                              prompt image_base64 ''jpeg''))
                     (\<lambda>response.
                        case response of
                          None \<Rightarrow> returnP fallback_description
                        | Some r \<Rightarrow>
                            if r \<noteq> [] then returnP (strip r)
                            else returnP fallback_description)))
         (\<lambda>e. returnP fallback_description))"

text \<open>\<^verbatim>\<open>_store_description\<close>\<close>

definition store_description :: "env \<Rightarrow> string \<Rightarrow> string \<Rightarrow> string \<Rightarrow> bool prog" where
  "store_description env uid plat description =
     bindP (invoked Call_store_description) (\<lambda>_.
       tryP
         (bindP (external Person_api (\<lambda>h. get_person_id env h plat uid)) (\<lambda>pid.
            case pid of
              None \<Rightarrow> returnP False
            | Some p \<Rightarrow>
                if p = [] then returnP False
                else bindP (set_avatar_description env p plat uid description None)
                       (\<lambda>success. returnP True)))
         (\<lambda>e. returnP False))"

text \<open>
  Steps 3 and 4 of \<^verbatim>\<open>analyze_and_store\<close>, the \<^verbatim>\<open>try\<close> block of the method, over the two
  calls it awaits: \<open>analyze\<close> is \<^verbatim>\<open>self._analyze_avatar(avatar_data, custom_prompt)\<close> and
  \<open>store description\<close> is \<^verbatim>\<open>self._store_description(user_id, platform, description)\<close>.
\<close>

definition describe_and_store :: "string prog \<Rightarrow> (string \<Rightarrow> bool prog) \<Rightarrow> (bool \<times> string) prog" where
  "describe_and_store analyze store =
     tryP
       (bindP analyze (\<lambda>description.
          if description = [] then returnP (False, msg_analysis_failed)
          else bindP (store description) (\<lambda>success.
                 if \<not> success then returnP (False, msg_store_failed)
                 else returnP (True, description))))
       (\<lambda>e. returnP (False, str_exn e))"

text \<open>Steps 2 to 4 of \<^verbatim>\<open>analyze_and_store\<close>: everything after the look-up of step 1.\<close>

definition fetch_analyze_store ::
    "env \<Rightarrow> string \<Rightarrow> string \<Rightarrow> string option \<Rightarrow> (bool \<times> string) prog" where
  "fetch_analyze_store env uid plat custom_prompt =
     bindP (fetch_avatar env uid plat) (\<lambda>avatar_data.
       case avatar_data of
         None \<Rightarrow> returnP (False, msg_fetch_failed)
       | Some data \<Rightarrow>
           if data = [] then returnP (False, msg_fetch_failed)
           else describe_and_store (analyze_avatar env data custom_prompt)
                  (store_description env uid plat))"

definition analyze_and_store ::
    "env \<Rightarrow> string \<Rightarrow> string \<Rightarrow> bool \<Rightarrow> string option \<Rightarrow> (bool \<times> string) prog" where
  "analyze_and_store env uid plat force_update custom_prompt =
     (if \<not> force_update then
        bindP (get_existing_description env uid plat) (\<lambda>existing.
          case existing of
            None \<Rightarrow> fetch_analyze_store env uid plat custom_prompt
          | Some description \<Rightarrow>
              if description \<noteq> [] then returnP (True, description)
              else fetch_analyze_store env uid plat custom_prompt)
      else fetch_analyze_store env uid plat custom_prompt)"

section \<open>The meme catalogue (\<^verbatim>\<open>plugin.py\<close>, class \<^verbatim>\<open>MemeManager\<close>)\<close>

text \<open>A template of the external generator: its key, its keywords and its tags.\<close>

record template =
  meme_key :: unicode
  meme_keywords :: "unicode list"
  meme_tags :: "unicode list"

text \<open>
  The class attributes \<^verbatim>\<open>_memes\<close>, \<^verbatim>\<open>_meme_list\<close> and \<^verbatim>\<open>is_initialized\<close>. A Python dict
  keeps its keys in the order of their first insertion, and assigning to a key it has
  replaces the value where the key stands: an association list under \<^const>\<open>AList.update\<close>.
\<close>

record meme_manager =
  memes :: "(unicode \<times> template) list"
  meme_list :: "template list"
  is_initialized :: bool

definition fresh_manager :: meme_manager where
  "fresh_manager = \<lparr>memes = [], meme_list = [], is_initialized = False\<rparr>"

text \<open>The body of the loop over \<^verbatim>\<open>all_memes\<close> in \<^verbatim>\<open>_load_memes\<close>; \<open>lower\<close> is
  \<^verbatim>\<open>str.lower\<close>.\<close>

definition index_meme ::
    "(unicode \<Rightarrow> unicode) \<Rightarrow> template \<Rightarrow> (unicode \<times> template) list \<Rightarrow> (unicode \<times> template) list" where
  "index_meme lower meme d =
     fold (\<lambda>keyword. AList.update (lower keyword) meme) (meme_keywords meme)
       (AList.update (meme_key meme) meme d)"

text \<open>
  \<^verbatim>\<open>_load_memes\<close>. \<open>available\<close> is what \<^verbatim>\<open>_check_and_load_meme_generator()\<close> returns;
  \<open>loaded\<close> is what \<^verbatim>\<open>load_memes(memes_dir())\<close> followed by \<^verbatim>\<open>get_memes()\<close> yields, the
  templates or a raised exception.
\<close>

definition load_memes ::
    "(unicode \<Rightarrow> unicode) \<Rightarrow> bool \<Rightarrow> exn + template list \<Rightarrow> meme_manager \<Rightarrow> meme_manager" where
  "load_memes lower available loaded mgr =
     (if \<not> available then mgr
      else case loaded of
             Inl e \<Rightarrow> mgr
           | Inr all_memes \<Rightarrow>
               mgr\<lparr>memes := fold (index_meme lower) all_memes (memes mgr),
                    meme_list := all_memes,
                    is_initialized := True\<rparr>)"

definition find_meme :: "(unicode \<Rightarrow> unicode) \<Rightarrow> meme_manager \<Rightarrow> unicode \<Rightarrow> template option" where
  "find_meme lower mgr query =
     (if \<not> is_initialized mgr then None
      else let key_lower = lower query
           in case map_of (memes mgr) key_lower of
                Some meme \<Rightarrow> Some meme
              | None \<Rightarrow>
                  map_option snd
                    (find (\<lambda>(k, meme). sublist key_lower k) (memes mgr)))"

definition get_all_memes :: "meme_manager \<Rightarrow> template list" where
  "get_all_memes mgr = (if is_initialized mgr then meme_list mgr else [])"

text \<open>\<^verbatim>\<open>random.choice\<close> returns the element at an index the generator draws below the
  length of the list; \<open>draw\<close> is the generator's number, reduced to that range.\<close>

definition get_random_meme :: "meme_manager \<Rightarrow> nat \<Rightarrow> template option" where
  "get_random_meme mgr draw =
     (if \<not> is_initialized mgr \<or> meme_list mgr = [] then None
      else Some (meme_list mgr ! (draw mod length (meme_list mgr))))"

section \<open>Observing a run\<close>

text \<open>How often an event has happened in a world.\<close>

definition calls :: "event \<Rightarrow> world \<Rightarrow> nat" where
  "calls ev w = count_list (trace w) ev"

text \<open>
  What the model registry and the vision model answer to a call of \<^const>\<open>analyze_avatar\<close>
  started in the world \<open>w\<close>: no model under the name \<^verbatim>\<open>vision_general\<close>, a raised
  exception (from the registry or from the request), or the response of the model.
\<close>

datatype vision_outcome = Unconfigured | Faulted exn | Answered "string option"

definition vision_outcome :: "env \<Rightarrow> bytes \<Rightarrow> string option \<Rightarrow> world \<Rightarrow> vision_outcome" where
  "vision_outcome env avatar_data custom_prompt w =
     (case get_available_models env (trace w @ [Call_analyze_avatar]) of
        Inl e \<Rightarrow> Faulted e
      | Inr models \<Rightarrow>
          (case models ''vision_general'' of
             None \<Rightarrow> Unconfigured
           | Some vision_model \<Rightarrow>
               (case generate_response_for_image env
                       (trace w @ [Call_analyze_avatar, Llm_models]) vision_model
                       (or_default custom_prompt default_prompt)
                       (b64encode avatar_data) ''jpeg'' of
                  Inl e \<Rightarrow> Faulted e
                | Inr response \<Rightarrow> Answered response)))"

subsection \<open>Sample worlds\<close>

text \<open>Collaborators that give the same answer whenever they are asked.\<close>

definition constant_env ::
    "(exn + string option) \<Rightarrow> exn option \<Rightarrow> real \<Rightarrow> (exn + nat \<times> bytes) \<Rightarrow>
     (exn + (string \<Rightarrow> task_config option)) \<Rightarrow> (exn + string option) \<Rightarrow> env" where
  "constant_env person fault now response models answer =
     \<lparr>get_person_id = (\<lambda>h plat uid. person),
      db_fault = (\<lambda>h. fault),
      time_time = (\<lambda>h. now),
      session_get = (\<lambda>h url. response),
      get_available_models = (\<lambda>h. models),
      generate_response_for_image = (\<lambda>h model prompt image format. answer)\<rparr>"

definition vision_registry :: "string \<Rightarrow> task_config option" where
  "vision_registry = [''vision_general'' \<mapsto> TaskConfig [''vision-model'']]"

definition no_registry :: "string \<Rightarrow> task_config option" where
  "no_registry = Map.empty"

text \<open>The person is known as \<open>p1\<close>, the registry has a vision model, the clock stands
  at \<open>1700000100\<close>; the database fault, the HTTP response and the model's answer vary.\<close>

definition sample_env :: "exn option \<Rightarrow> (exn + nat \<times> bytes) \<Rightarrow> (exn + string option) \<Rightarrow> env" where
  "sample_env fault response answer =
     constant_env (Inr (Some ''p1'')) fault 1700000100 response (Inr vision_registry) answer"

definition empty_world :: world where
  "empty_world = \<lparr>table = [], trace = []\<rparr>"

text \<open>A stored row whose description is the empty text, and one with a description.\<close>

definition blank_row :: avatar_description where
  "blank_row = \<lparr>person_id = ''p1'', platform = ''qq'', user_id = ''10001'',
                head_description = Some [], analyzed_at = Some 1700000000,
                avatar_url = None\<rparr>"

definition cat_row :: avatar_description where
  "cat_row = \<lparr>person_id = ''p1'', platform = ''qq'', user_id = ''10001'',
              head_description = Some ''a cat avatar'', analyzed_at = Some 1700000000,
              avatar_url = None\<rparr>"

definition world_with :: "avatar_description \<Rightarrow> world" where
  "world_with row = \<lparr>table = [row], trace = []\<rparr>"

text \<open>A store step that raises.\<close>

definition broken_store :: "string \<Rightarrow> bool prog" where
  "broken_store description = raiseP (Exception ''disk full'')"

text \<open>Two templates: the key of the first has an upper-case letter.\<close>

definition doge :: template where
  "doge = \<lparr>meme_key = codes ''Doge'', meme_keywords = [], meme_tags = [codes ''animal'']\<rparr>"

definition doge2 :: template where
  "doge2 = \<lparr>meme_key = codes ''doge2'', meme_keywords = [codes ''Shiba''],
            meme_tags = [codes ''animal'']\<rparr>"

text \<open>A template whose key is the one character U+211D, DOUBLE-STRUCK CAPITAL R: an
  upper-case letter (general category Lu, \<^verbatim>\<open>str.isupper\<close> holds) that has no lower-case
  form, so \<^verbatim>\<open>str.lower\<close> returns it unchanged.\<close>

definition reals :: template where
  "reals = \<lparr>meme_key = [0x211D], meme_keywords = [], meme_tags = [codes ''math'']\<rparr>"

section \<open>Properties of the catalogue\<close>

lemmas catalogue_defs = find_meme_def load_memes_def fresh_manager_def index_meme_def
  get_all_memes_def get_random_meme_def doge_def doge2_def reals_def codes_def ascii_lower_def

lemma ascii_lower_idempotent: "ascii_lower (ascii_lower s) = ascii_lower s"
  by (simp add: ascii_lower_def)

lemma length_ascii_lower: "length (ascii_lower s) = length s"
  by (simp add: ascii_lower_def)

lemma sublist_not_shorter: "sublist xs ys \<Longrightarrow> length ys \<le> length xs \<Longrightarrow> xs = ys"
  by (auto simp: sublist_def)

text \<open>A key that lower-casing changes is not the lower-case form of any text, when
  lower-casing a lower-cased text changes nothing.\<close>

lemma changed_key_not_lowered:
  assumes "\<forall>s. lower (lower s) = lower s" and "lower k \<noteq> k"
  shows "lower query \<noteq> k"
proof
  assume "lower query = k"
  then have "lower k = lower (lower query)"
    by simp
  also have "\<dots> = lower query"
    using assms(1) by simp
  finally show False
    using assms(2) \<open>lower query = k\<close> by simp
qed

text \<open>Nor does such a key contain its own lower-case form, when lower-casing never
  shortens a text.\<close>

lemma changed_key_not_contained:
  assumes "\<forall>s. length s \<le> length (lower s)" and "lower k \<noteq> k"
      and "lower query = lower k"
  shows "\<not> sublist (lower query) k"
proof
  assume "sublist (lower query) k"
  then have "sublist (lower k) k"
    using assms(3) by simp
  moreover have "length k \<le> length (lower k)"
    using assms(1) by simp
  ultimately have "lower k = k"
    by (rule sublist_not_shorter)
  with assms(2) show False by simp
qed

lemma map_of_filter_other_key:
  "k \<noteq> k0 \<Longrightarrow> map_of (filter (\<lambda>(k', v). k' \<noteq> k0) xs) k = map_of xs k"
  by (induction xs) auto

lemma find_filter_implied:
  "(\<And>x. P x \<Longrightarrow> Q x) \<Longrightarrow> find P (filter Q xs) = find P xs"
  by (induction xs) auto

lemma keys_index_meme:
  "fst ` set (index_meme lower meme d) =
     fst ` set d \<union> {meme_key meme} \<union> lower ` set (meme_keywords meme)"
proof -
  have "fst ` set (fold (\<lambda>keyword. AList.update (lower keyword) meme) ks d') =
          fst ` set d' \<union> lower ` set ks" for ks d'
    by (induction ks arbitrary: d') (auto simp: dom_update)
  then show ?thesis
    by (auto simp: index_meme_def dom_update)
qed

lemma keys_fold_index_meme:
  "fst ` set (fold (index_meme lower) ms d) =
     fst ` set d \<union> meme_key ` set ms \<union> (\<Union>m\<in>set ms. lower ` set (meme_keywords m))"
  by (induction ms arbitrary: d) (auto simp: keys_index_meme)

text \<open>The exact look-up comes first: a query whose lower-case form is a key of the index
  gets the template stored under that key, whatever else contains it.\<close>

lemma find_meme_exact_first:
  "is_initialized mgr \<Longrightarrow> map_of (memes mgr) (lower query) = Some meme \<Longrightarrow>
   find_meme lower mgr query = Some meme"
  by (simp add: find_meme_def)

text \<open>No key of the index contains the lower-case query: nothing is found.\<close>

lemma find_meme_no_match:
  assumes "\<forall>k\<in>fst ` set (memes mgr). \<not> sublist (lower query) k"
  shows "find_meme lower mgr query = None"
proof -
  have "lower query \<notin> fst ` set (memes mgr)"
    using assms by auto
  then have "map_of (memes mgr) (lower query) = None"
    by (simp add: map_of_eq_None_iff)
  moreover have "find (\<lambda>(k, meme). sublist (lower query) k) (memes mgr) = None"
    using assms by (auto simp: find_None_iff)
  ultimately show ?thesis
    by (simp add: find_meme_def)
qed

text \<open>
  Claim C6 (the code departs from it). The claim: a query that equals an indexed key or
  alias without regard to case gets the template of that exact match, also when the query
  is contained in another indexed key. \<^verbatim>\<open>_load_memes\<close> lower-cases the keywords but stores
  the key as it is, and \<^verbatim>\<open>find_meme\<close> lower-cases the query: with the keys \<open>Doge\<close> and
  \<open>doge2\<close> loaded, the query \<open>Doge\<close> misses its own template in the exact look-up and
  the scan returns the template \<open>doge2\<close>.
\<close>

theorem find_meme_uppercase_key_lost:
  "find_meme ascii_lower (load_memes ascii_lower True (Inr [doge, doge2]) fresh_manager)
     (codes ''Doge'') = Some doge2"
  by (simp add: catalogue_defs sublist_code)

text \<open>
  Claim C7. While the catalogue is not initialized, \<^verbatim>\<open>find_meme\<close> returns \<^verbatim>\<open>None\<close> for
  every query, \<^verbatim>\<open>get_all_memes\<close> returns the empty list and \<^verbatim>\<open>get_random_meme\<close> returns
  \<^verbatim>\<open>None\<close>; \<^verbatim>\<open>get_random_meme\<close> also returns \<^verbatim>\<open>None\<close> when the list of templates is empty.
  A load that fails (the generator is unavailable, or loading raises) leaves a fresh
  manager uninitialized. None of the three operations can raise.
\<close>

theorem uninitialized_catalogue_operations:
  "(\<not> is_initialized mgr \<longrightarrow>
      find_meme lower mgr query = None \<and> get_all_memes mgr = []
      \<and> get_random_meme mgr draw = None)
   \<and> (meme_list mgr = [] \<longrightarrow> get_random_meme mgr draw = None)
   \<and> \<not> is_initialized (load_memes lower False loaded fresh_manager)
   \<and> \<not> is_initialized (load_memes lower available (Inl e) fresh_manager)"
  by (simp add: find_meme_def get_all_memes_def get_random_meme_def load_memes_def
        fresh_manager_def)

theorem uninitialized_catalogue_operations_witness:
  "\<not> is_initialized (load_memes ascii_lower False (Inr [doge]) fresh_manager)
   \<and> find_meme ascii_lower (load_memes ascii_lower False (Inr [doge]) fresh_manager)
        (codes ''doge'') = None
   \<and> get_all_memes (load_memes ascii_lower False (Inr [doge]) fresh_manager) = []
   \<and> get_random_meme (load_memes ascii_lower False (Inr [doge]) fresh_manager) 0 = None
   \<and> meme_list (load_memes ascii_lower True (Inr []) fresh_manager) = []
   \<and> get_random_meme (load_memes ascii_lower True (Inr []) fresh_manager) 0 = None"
  using uninitialized_catalogue_operations
          [where mgr = "load_memes ascii_lower False (Inr [doge]) fresh_manager"
             and lower = ascii_lower and query = "codes ''doge''" and draw = 0]
        uninitialized_catalogue_operations
          [where mgr = "load_memes ascii_lower True (Inr []) fresh_manager" and draw = 0]
  by (simp add: load_memes_def fresh_manager_def)

text \<open>
  Claim C10, as stated, fails: a key can contain an upper-case letter that has no
  lower-case form. The key \<open>U+211D\<close> (DOUBLE-STRUCK CAPITAL R, an upper-case letter that
  \<^verbatim>\<open>str.lower\<close> leaves as it is) is stored as it is, the lower-cased query is that key,
  and the exact look-up finds the template under the entry of its key.
\<close>

theorem uppercase_key_without_lowercase_found:
  "ascii_lower [0x211D] = [0x211D]
   \<and> memes (load_memes ascii_lower True (Inr [reals]) fresh_manager) = [([0x211D], reals)]
   \<and> find_meme ascii_lower (load_memes ascii_lower True (Inr [reals]) fresh_manager) [0x211D]
       = Some reals"
  by (simp add: catalogue_defs)

text \<open>
  Claim C10, amended. After a load, the keys of the index are the templates' keys as they
  are and their keywords lower-cased. \<^verbatim>\<open>find_meme\<close> lower-cases the query before the
  exact look-up and before the scan, and the exact look-up answers whenever the
  lower-cased query is a key of the index. So for a key that \<^verbatim>\<open>str.lower\<close> changes (it
  has a letter with a different lower-case form) and a query that is this key in any
  casing, the entry under the key never answers: the lower-cased query is not that key
  and is not contained in it, and the result is the same with that entry removed from the
  index, hence comes from a lower-cased alias or from another entry. Two facts about
  \<^verbatim>\<open>str.lower\<close> are used: lower-casing a lower-cased text changes nothing, and lower-casing
  never shortens a text.
\<close>

theorem uppercase_key_entry_unreachable:
  assumes "\<forall>s. lower (lower s) = lower s" and "\<forall>s. length s \<le> length (lower s)"
      and "lower k \<noteq> k" and "lower query = lower k"
  shows "find_meme lower mgr query =
           find_meme lower (mgr\<lparr>memes := filter (\<lambda>(k', meme). k' \<noteq> k) (memes mgr)\<rparr>) query
         \<and> lower query \<noteq> k
         \<and> \<not> sublist (lower query) k
         \<and> (is_initialized mgr \<longrightarrow>
              (case map_of (memes mgr) (lower query) of
                 Some meme \<Rightarrow> find_meme lower mgr query = Some meme
               | None \<Rightarrow> find_meme lower mgr query
                           = map_option snd
                               (find (\<lambda>(k', meme). sublist (lower query) k') (memes mgr))))
         \<and> fst ` set (memes (load_memes lower True (Inr all_memes) fresh_manager)) =
             meme_key ` set all_memes \<union> (\<Union>m\<in>set all_memes. lower ` set (meme_keywords m))"
proof -
  have 0: "lower query \<noteq> k"
    using assms(1,3) by (rule changed_key_not_lowered)
  have 1: "map_of (filter (\<lambda>(k', meme). k' \<noteq> k) (memes mgr)) (lower query) =
           map_of (memes mgr) (lower query)"
    using 0 by (simp add: map_of_filter_other_key)
  have 2: "\<not> sublist (lower query) k"
    using assms(2,3,4) by (rule changed_key_not_contained)
  have 3: "find (\<lambda>(k', meme). sublist (lower query) k')
             (filter (\<lambda>(k', meme). k' \<noteq> k) (memes mgr))
           = find (\<lambda>(k', meme). sublist (lower query) k') (memes mgr)"
    using 2 by (intro find_filter_implied) auto
  have 4: "fst ` set (memes (load_memes lower True (Inr all_memes) fresh_manager)) =
             meme_key ` set all_memes \<union> (\<Union>m\<in>set all_memes. lower ` set (meme_keywords m))"
    by (simp add: load_memes_def fresh_manager_def keys_fold_index_meme)
  have 5: "find_meme lower mgr query =
           find_meme lower (mgr\<lparr>memes := filter (\<lambda>(k', meme). k' \<noteq> k) (memes mgr)\<rparr>) query"
    by (simp add: find_meme_def Let_def 1 3 split: option.split)
  have 6: "is_initialized mgr \<longrightarrow>
              (case map_of (memes mgr) (lower query) of
                 Some meme \<Rightarrow> find_meme lower mgr query = Some meme
               | None \<Rightarrow> find_meme lower mgr query
                           = map_option snd
                               (find (\<lambda>(k', meme). sublist (lower query) k') (memes mgr)))"
    by (simp add: find_meme_def Let_def split: option.split)
  from 0 2 4 5 6 show ?thesis by simp
qed

theorem uppercase_key_entry_unreachable_witness:
  "(\<forall>s. ascii_lower (ascii_lower s) = ascii_lower s)
   \<and> (\<forall>s. length s \<le> length (ascii_lower s))
   \<and> ascii_lower (codes ''Doge'') \<noteq> codes ''Doge''
   \<and> ascii_lower (codes ''DOGE'') = ascii_lower (codes ''Doge'')
   \<and> find_meme ascii_lower (load_memes ascii_lower True (Inr [doge]) fresh_manager)
        (codes ''DOGE'') = None
   \<and> find_meme ascii_lower (load_memes ascii_lower True (Inr [doge, doge2]) fresh_manager)
        (codes ''DOGE'') = Some doge2"
proof -
  have h1: "\<forall>s. ascii_lower (ascii_lower s) = ascii_lower s"
    by (simp add: ascii_lower_idempotent)
  have h2: "\<forall>s. length s \<le> length (ascii_lower s)"
    by (simp add: length_ascii_lower)
  have h3: "ascii_lower (codes ''Doge'') \<noteq> codes ''Doge''"
    by (simp add: ascii_lower_def codes_def)
  have h4: "ascii_lower (codes ''DOGE'') = ascii_lower (codes ''Doge'')"
    by (simp add: ascii_lower_def codes_def)
  show ?thesis
    using h1 h2 h3 h4
      uppercase_key_entry_unreachable [OF h1 h2 h3 h4,
        of "load_memes ascii_lower True (Inr [doge]) fresh_manager"]
      uppercase_key_entry_unreachable [OF h1 h2 h3 h4,
        of "load_memes ascii_lower True (Inr [doge, doge2]) fresh_manager"]
    by (simp add: catalogue_defs sublist_code)
qed

section \<open>Properties of the store\<close>

lemmas prog_defs = returnP_def bindP_def tryP_def invoked_def external_def
  db_statement_def

lemmas sample_defs = sample_env_def constant_env_def vision_registry_def no_registry_def
  empty_world_def world_with_def blank_row_def cat_row_def broken_store_def


lemma calls_extend: "calls ev (w\<lparr>trace := trace w @ es\<rparr>) = calls ev w + count_list es ev"
  by (simp add: calls_def)

lemma find_person_None:
  "find (\<lambda>r. person_id r = pid) rows = None \<longleftrightarrow> pid \<notin> person_id ` set rows"
  by (auto simp: find_None_iff)

lemma find_person_Some:
  "find (\<lambda>r. person_id r = pid) rows = Some r \<Longrightarrow> r \<in> set rows \<and> person_id r = pid"
  by (auto simp: find_Some_iff)

text \<open>A look-up never raises and never writes.\<close>

lemma get_avatar_description_result:
  "get_avatar_description env pid w =
     (Inr (case db_fault env (trace w @ [Call_get_avatar_description]) of
             Some e \<Rightarrow> None
           | None \<Rightarrow> (case find (\<lambda>r. person_id r = pid) (table w) of
                         Some r \<Rightarrow> head_description r
                       | None \<Rightarrow> None)),
      w\<lparr>trace := trace w @ [Call_get_avatar_description, Db_select]\<rparr>)"
  by (simp add: get_avatar_description_def get_or_none_def prog_defs split: option.splits)

text \<open>What an upsert returns and the world it leaves: for a person without a row, for
  a person with a row, and both together.\<close>

lemma set_avatar_description_create:
  assumes "find (\<lambda>r. person_id r = pid) (table w) = None"
      and "pid \<notin> person_id ` set (table w)"
  shows "set_avatar_description env pid plat uid description url w =
     (case db_fault env (trace w @ [Call_set_avatar_description]) of
        Some e \<Rightarrow>
          (Inr False, w\<lparr>trace := trace w @ [Call_set_avatar_description, Db_select]\<rparr>)
      | None \<Rightarrow>
          (case db_fault env (trace w @ [Call_set_avatar_description, Db_select]) of
             Some e \<Rightarrow>
               (Inr False,
                w\<lparr>trace := trace w @ [Call_set_avatar_description, Db_select, Db_insert]\<rparr>)
           | None \<Rightarrow>
               (Inr True,
                w\<lparr>trace := trace w @ [Call_set_avatar_description, Db_select, Db_insert],
                  table := table w @
                    [\<lparr>person_id = pid, platform = plat, user_id = uid,
                      head_description = Some description,
                      analyzed_at = Some (time_time env
                        (trace w @ [Call_set_avatar_description, Db_select])),
                      avatar_url = url\<rparr>]\<rparr>)))"
  using assms
  by (simp add: set_avatar_description_def get_or_none_def create_def prog_defs
        split: option.split)

lemma set_avatar_description_update:
  assumes "find (\<lambda>r. person_id r = pid) (table w) = Some r"
      and "person_id r = pid"
  shows "set_avatar_description env pid plat uid description url w =
     (case db_fault env (trace w @ [Call_set_avatar_description]) of
        Some e \<Rightarrow>
          (Inr False, w\<lparr>trace := trace w @ [Call_set_avatar_description, Db_select]\<rparr>)
      | None \<Rightarrow>
          (case db_fault env (trace w @ [Call_set_avatar_description, Db_select]) of
             Some e \<Rightarrow>
               (Inr False,
                w\<lparr>trace := trace w @ [Call_set_avatar_description, Db_select, Db_update]\<rparr>)
           | None \<Rightarrow>
               (Inr True,
                w\<lparr>trace := trace w @ [Call_set_avatar_description, Db_select, Db_update],
                  table := map (\<lambda>r'. if person_id r' = pid
                              then r\<lparr>head_description := Some description,
                                     analyzed_at := Some (time_time env
                                       (trace w @ [Call_set_avatar_description, Db_select])),
                                     avatar_url := (if truthy url then url else avatar_url r)\<rparr>
                              else r') (table w)\<rparr>)))"
  using assms
  by (simp add: set_avatar_description_def get_or_none_def save_def prog_defs
        split: option.split)

lemma set_avatar_description_result:
  "set_avatar_description env pid plat uid description url w =
     (case db_fault env (trace w @ [Call_set_avatar_description]) of
        Some e \<Rightarrow>
          (Inr False, w\<lparr>trace := trace w @ [Call_set_avatar_description, Db_select]\<rparr>)
      | None \<Rightarrow>
         (case find (\<lambda>r. person_id r = pid) (table w) of
            Some r \<Rightarrow>
              (case db_fault env (trace w @ [Call_set_avatar_description, Db_select]) of
                 Some e \<Rightarrow>
                   (Inr False,
                    w\<lparr>trace := trace w @ [Call_set_avatar_description, Db_select, Db_update]\<rparr>)
               | None \<Rightarrow>
                   (Inr True,
                    w\<lparr>trace := trace w @ [Call_set_avatar_description, Db_select, Db_update],
                      table := map (\<lambda>r'. if person_id r' = pid
                                  then r\<lparr>head_description := Some description,
                                         analyzed_at := Some (time_time env
                                           (trace w @ [Call_set_avatar_description, Db_select])),
                                         avatar_url := (if truthy url then url else avatar_url r)\<rparr>
                                  else r') (table w)\<rparr>))
          | None \<Rightarrow>
              (case db_fault env (trace w @ [Call_set_avatar_description, Db_select]) of
                 Some e \<Rightarrow>
                   (Inr False,
                    w\<lparr>trace := trace w @ [Call_set_avatar_description, Db_select, Db_insert]\<rparr>)
               | None \<Rightarrow>
                   (Inr True,
                    w\<lparr>trace := trace w @ [Call_set_avatar_description, Db_select, Db_insert],
                      table := table w @
                        [\<lparr>person_id = pid, platform = plat, user_id = uid,
                          head_description = Some description,
                          analyzed_at = Some (time_time env
                            (trace w @ [Call_set_avatar_description, Db_select])),
                          avatar_url = url\<rparr>]\<rparr>))))"
proof (cases "find (\<lambda>r. person_id r = pid) (table w)")
  case None
  then have absent: "pid \<notin> person_id ` set (table w)"
    by (simp add: find_person_None)
  show ?thesis
    unfolding set_avatar_description_create [OF None absent] None
    by (simp split: option.split)
next
  case (Some r)
  then have same: "person_id r = pid"
    by (auto dest: find_person_Some)
  show ?thesis
    unfolding set_avatar_description_update [OF Some same] Some
    by (simp split: option.split)
qed



lemma count_person_distinct:
  "distinct (map person_id rows) \<Longrightarrow> pid \<in> person_id ` set rows \<Longrightarrow>
   length (filter (\<lambda>r. person_id r = pid) rows) = 1"
  by (induction rows) (auto simp: filter_empty_conv image_iff)

lemma person_ids_after_update:
  "person_id r0 = pid \<Longrightarrow>
   map person_id (map (\<lambda>r'. if person_id r' = pid then r0 else r') rows) = map person_id rows"
  by (induction rows) auto

text \<open>
  Claim C5. The table has at most one row per \<open>person_id\<close> (the column is unique), and
  \<^verbatim>\<open>set_avatar_description\<close> keeps it so. It never raises, and it returns \<^verbatim>\<open>True\<close> exactly
  when the database raises at neither of its two statements (the look-up and the write).
  When it returns \<^verbatim>\<open>True\<close>, the table has exactly one row for the person, with the new
  description and with \<open>analyzed_at\<close> set to the clock's reading at the write: for a
  person not present before this is one row appended with the given fields, for a person
  present the row is updated where it stands (the sequence of person ids is unchanged,
  the other rows are kept). When it returns \<^verbatim>\<open>False\<close> the table is unchanged.
\<close>

theorem set_avatar_description_upsert:
  assumes "distinct (map person_id (table w))"
  shows "\<exists>ok w'. set_avatar_description env pid plat uid description url w = (Inr ok, w')
           \<and> ok = (db_fault env (trace w @ [Call_set_avatar_description]) = None
                   \<and> db_fault env (trace w @ [Call_set_avatar_description, Db_select]) = None)
           \<and> distinct (map person_id (table w'))
           \<and> (\<not> ok \<longrightarrow> table w' = table w)
           \<and> (ok \<longrightarrow>
                length (filter (\<lambda>r. person_id r = pid) (table w')) = 1
                \<and> (\<forall>r\<in>set (table w'). person_id r = pid \<longrightarrow>
                      head_description r = Some description
                      \<and> analyzed_at r = Some (time_time env
                            (trace w @ [Call_set_avatar_description, Db_select])))
                \<and> (if pid \<in> person_id ` set (table w)
                    then map person_id (table w') = map person_id (table w)
                         \<and> (\<forall>r\<in>set (table w). person_id r \<noteq> pid \<longrightarrow> r \<in> set (table w'))
                    else table w' = table w @
                           [\<lparr>person_id = pid, platform = plat, user_id = uid,
                             head_description = Some description,
                             analyzed_at = Some (time_time env
                               (trace w @ [Call_set_avatar_description, Db_select])),
                             avatar_url = url\<rparr>]))"
proof (cases "db_fault env (trace w @ [Call_set_avatar_description]) = None
              \<and> db_fault env (trace w @ [Call_set_avatar_description, Db_select]) = None")
  case False
  let ?run = "set_avatar_description env pid plat uid description url w"
  from False have "fst ?run = Inr False" and "table (snd ?run) = table w"
    by (auto simp: set_avatar_description_result split: option.splits)
  with assms False show ?thesis
    by (intro exI [of _ False] exI [of _ "snd ?run"]) (simp add: prod_eq_iff)
next
  case True
  show ?thesis
  proof (cases "find (\<lambda>r. person_id r = pid) (table w)")
    case None
    then have absent: "pid \<notin> person_id ` set (table w)"
      by (simp add: find_person_None)
    then have none: "filter (\<lambda>r. person_id r = pid) (table w) = []"
      by (auto simp: filter_empty_conv)
    let ?row = "\<lparr>person_id = pid, platform = plat, user_id = uid,
                 head_description = Some description,
                 analyzed_at = Some (time_time env
                   (trace w @ [Call_set_avatar_description, Db_select])),
                 avatar_url = url\<rparr>"
    have run: "set_avatar_description env pid plat uid description url w =
                 (Inr True,
                  w\<lparr>trace := trace w @ [Call_set_avatar_description, Db_select, Db_insert],
                    table := table w @ [?row]\<rparr>)"
      using True None by (simp add: set_avatar_description_result)
    have old: "\<forall>r\<in>set (table w). person_id r \<noteq> pid"
      using absent by auto
    show ?thesis
      using run True absent none old assms
      by (intro exI [of _ True]
            exI [of _ "w\<lparr>trace := trace w @ [Call_set_avatar_description, Db_select, Db_insert],
                        table := table w @ [?row]\<rparr>"]) simp
  next
    case (Some r0)
    then have r0: "r0 \<in> set (table w)" "person_id r0 = pid"
      by (auto dest: find_person_Some)
    then have present: "pid \<in> person_id ` set (table w)"
      by auto
    define row where "row = r0\<lparr>head_description := Some description,
                   analyzed_at := Some (time_time env
                     (trace w @ [Call_set_avatar_description, Db_select])),
                   avatar_url := (if truthy url then url else avatar_url r0)\<rparr>"
    define rows where "rows = map (\<lambda>r'. if person_id r' = pid then row else r') (table w)"
    have row: "person_id row = pid" "head_description row = Some description"
      "analyzed_at row = Some (time_time env (trace w @ [Call_set_avatar_description, Db_select]))"
      using r0(2) by (simp_all add: row_def)
    have ids: "map person_id rows = map person_id (table w)"
      unfolding rows_def using row(1) by (rule person_ids_after_update)
    have d: "distinct (map person_id rows)"
      using ids assms by simp
    have "set (map person_id rows) = set (map person_id (table w))"
      using ids by simp
    then have "pid \<in> person_id ` set rows"
      using present by simp
    with d have one: "length (filter (\<lambda>r. person_id r = pid) rows) = 1"
      by (rule count_person_distinct)
    have fresh: "\<forall>r\<in>set rows. person_id r = pid \<longrightarrow>
                   head_description r = Some description
                   \<and> analyzed_at r = Some (time_time env
                         (trace w @ [Call_set_avatar_description, Db_select]))"
      using row by (auto simp: rows_def)
    have others: "\<forall>r\<in>set (table w). person_id r \<noteq> pid \<longrightarrow> r \<in> set rows"
      by (auto simp: rows_def)
    have run: "set_avatar_description env pid plat uid description url w =
                 (Inr True,
                  w\<lparr>trace := trace w @ [Call_set_avatar_description, Db_select, Db_update],
                    table := rows\<rparr>)"
      using True Some by (simp add: set_avatar_description_result rows_def row_def)
    show ?thesis
      using run True ids d one fresh others present
      by (intro exI [of _ True]
            exI [of _ "w\<lparr>trace := trace w @ [Call_set_avatar_description, Db_select, Db_update],
                        table := rows\<rparr>"]) simp
  qed
qed

theorem set_avatar_description_upsert_witness:
  "distinct (map person_id (table (world_with cat_row)))
   \<and> distinct (map person_id (table empty_world))
   \<and> set_avatar_description (sample_env None (Inr (404, [])) (Inr None))
        ''p1'' ''qq'' ''10001'' ''a dog avatar'' None empty_world
       = (Inr True,
          \<lparr>table = [\<lparr>person_id = ''p1'', platform = ''qq'', user_id = ''10001'',
                      head_description = Some ''a dog avatar'', analyzed_at = Some 1700000100,
                      avatar_url = None\<rparr>],
           trace = [Call_set_avatar_description, Db_select, Db_insert]\<rparr>)
   \<and> set_avatar_description (sample_env None (Inr (404, [])) (Inr None))
        ''p1'' ''qq'' ''10001'' ''a dog avatar'' None (world_with cat_row)
       = (Inr True,
          \<lparr>table = [cat_row\<lparr>head_description := Some ''a dog avatar'',
                              analyzed_at := Some 1700000100\<rparr>],
           trace = [Call_set_avatar_description, Db_select, Db_update]\<rparr>)
   \<and> set_avatar_description (sample_env (Some (Exception ''database is locked''))
          (Inr (404, [])) (Inr None))
        ''p1'' ''qq'' ''10001'' ''a dog avatar'' None (world_with cat_row)
       = (Inr False, \<lparr>table = [cat_row], trace = [Call_set_avatar_description, Db_select]\<rparr>)"
proof -
  have h1: "distinct (map person_id (table (world_with cat_row)))"
    by (simp add: sample_defs)
  have h2: "distinct (map person_id (table empty_world))"
    by (simp add: sample_defs)
  show ?thesis
    using h1 h2
      set_avatar_description_upsert [OF h2, of "sample_env None (Inr (404, [])) (Inr None)"
        "''p1''" "''qq''" "''10001''" "''a dog avatar''" None]
      set_avatar_description_upsert [OF h1, of "sample_env None (Inr (404, [])) (Inr None)"
        "''p1''" "''qq''" "''10001''" "''a dog avatar''" None]
      set_avatar_description_upsert [OF h1,
        of "sample_env (Some (Exception ''database is locked'')) (Inr (404, [])) (Inr None)"
        "''p1''" "''qq''" "''10001''" "''a dog avatar''" None]
    by (simp add: set_avatar_description_result sample_defs)
qed

section \<open>Properties of the analyzer\<close>

lemma fallback_nonempty: "fallback_description \<noteq> []"
  by (simp add: fallback_description_def)

text \<open>The look-up of step 1 never raises, never writes, and invokes neither the fetcher
  nor the describer nor the store's write.\<close>

lemma get_existing_description_frame:
  "\<exists>r. fst (get_existing_description env uid plat w) = Inr r"
  "table (snd (get_existing_description env uid plat w)) = table w"
  by (simp_all add: get_existing_description_def get_avatar_description_result prog_defs
        split: sum.splits option.splits)

lemma get_existing_description_calls:
  "ev \<notin> {Call_get_existing_description, Person_api, Call_get_avatar_description, Db_select}
     \<Longrightarrow> calls ev (snd (get_existing_description env uid plat w)) = calls ev w"
  by (auto simp: get_existing_description_def get_avatar_description_result prog_defs
        calls_def split: sum.splits option.splits)

text \<open>The fetcher never raises and leaves the table alone.\<close>

lemma fetch_avatar_frame:
  "\<exists>r. fst (fetch_avatar env uid plat w) = Inr r"
  "snd (fetch_avatar env uid plat w) =
     w\<lparr>trace := trace w @ Call_fetch_avatar # (if plat = ''qq'' then [Http_get] else [])\<rparr>"
  by (simp_all add: fetch_avatar_def prog_defs split: sum.splits prod.splits)

text \<open>What the describer returns, from what the registry and the model answer.\<close>

lemma analyze_avatar_result:
  "fst (analyze_avatar env avatar_data custom_prompt w) =
     Inr (case vision_outcome env avatar_data custom_prompt w of
            Answered (Some r) \<Rightarrow> if r \<noteq> [] then strip r else fallback_description
          | _ \<Rightarrow> fallback_description)"
  by (simp add: analyze_avatar_def vision_outcome_def prog_defs Let_def
        split: sum.splits option.splits)







lemma fetch_analyze_store_no_avatar:
  assumes "fst (fetch_avatar env uid plat w) = Inr None"
  shows "fetch_analyze_store env uid plat custom_prompt w =
           (Inr (False, msg_fetch_failed),
            w\<lparr>trace := trace w @ Call_fetch_avatar # (if plat = ''qq'' then [Http_get] else [])\<rparr>)"
proof -
  have "fetch_avatar env uid plat w =
          (Inr None,
           w\<lparr>trace := trace w @ Call_fetch_avatar # (if plat = ''qq'' then [Http_get] else [])\<rparr>)"
    using assms fetch_avatar_frame(2) [of env uid plat w] by (simp add: prod_eq_iff)
  then show ?thesis
    by (simp add: fetch_analyze_store_def prog_defs)
qed



lemmas run_defs = analyze_and_store_def fetch_analyze_store_def describe_and_store_def
  fetch_avatar_def analyze_avatar_def store_description_def get_existing_description_def
  get_avatar_description_result set_avatar_description_result prog_defs raiseP_def

text \<open>
  Claim C1, as stated, fails, in two ways. A cached description that is the empty text is
  an existing description, yet \<^verbatim>\<open>if existing:\<close> takes it for none: with the row
  \<open>blank_row\<close> stored for the person (and the avatar endpoint answering 404), the look-up
  returns the empty description, the fetcher is invoked and the result is the fetch
  failure. And a non-empty cached description is not found when the SELECT of the look-up
  raises, because \<^verbatim>\<open>get_avatar_description\<close> turns the exception into \<^verbatim>\<open>None\<close>: with the
  row \<open>cat_row\<close> stored and the database locked, the fetcher is invoked all the same.
\<close>

theorem empty_cached_description_refetched:
  "person_id blank_row = ''p1'' \<and> head_description blank_row = Some []
   \<and> get_person_id (sample_env None (Inr (404, [])) (Inr None))
        [Call_get_existing_description] ''qq'' ''10001'' = Inr (Some ''p1'')
   \<and> fst (get_existing_description (sample_env None (Inr (404, [])) (Inr None))
            ''10001'' ''qq'' (world_with blank_row)) = Inr (Some [])
   \<and> analyze_and_store (sample_env None (Inr (404, [])) (Inr None))
        ''10001'' ''qq'' False None (world_with blank_row)
       = (Inr (False, msg_fetch_failed),
          \<lparr>table = [blank_row],
           trace = [Call_get_existing_description, Person_api, Call_get_avatar_description,
                    Db_select, Call_fetch_avatar, Http_get]\<rparr>)
   \<and> person_id cat_row = ''p1'' \<and> head_description cat_row = Some ''a cat avatar''
   \<and> fst (get_existing_description
            (sample_env (Some (Exception ''database is locked'')) (Inr (404, [])) (Inr None))
            ''10001'' ''qq'' (world_with cat_row)) = Inr None
   \<and> analyze_and_store
        (sample_env (Some (Exception ''database is locked'')) (Inr (404, [])) (Inr None))
        ''10001'' ''qq'' False None (world_with cat_row)
       = (Inr (False, msg_fetch_failed),
          \<lparr>table = [cat_row],
           trace = [Call_get_existing_description, Person_api, Call_get_avatar_description,
                    Db_select, Call_fetch_avatar, Http_get]\<rparr>)"
  by (simp add: run_defs sample_defs)

text \<open>
  Claim C1, amended. When the pair (platform, user id) resolves to a non-empty person
  identifier, the store's look-up does not fault and the person's row holds a non-empty
  description, \<^verbatim>\<open>analyze_and_store\<close> without \<^verbatim>\<open>force_update\<close> returns \<^verbatim>\<open>(True, description)\<close>.
  The world it leaves has the same table, and the run consists of the look-up alone: the
  call of \<^verbatim>\<open>_get_existing_description\<close>, the request to the person service, the call of
  \<^verbatim>\<open>get_avatar_description\<close> and its one SELECT; no fetch, no analysis, no write.
\<close>

theorem cached_description_short_circuit:
  assumes "get_person_id env (trace w @ [Call_get_existing_description]) plat uid = Inr (Some pid)"
      and "pid \<noteq> []"
      and "db_fault env (trace w @ [Call_get_existing_description, Person_api,
                                   Call_get_avatar_description]) = None"
      and "find (\<lambda>r. person_id r = pid) (table w) = Some row"
      and "head_description row = Some description"
      and "description \<noteq> []"
  shows "analyze_and_store env uid plat False custom_prompt w =
           (Inr (True, description),
            w\<lparr>trace := trace w @ [Call_get_existing_description, Person_api,
                                   Call_get_avatar_description, Db_select]\<rparr>)"
  using assms
  by (simp add: analyze_and_store_def get_existing_description_def
        get_avatar_description_result prog_defs)

theorem cached_description_short_circuit_witness:
  "get_person_id (sample_env None (Inr (200, ''avatar'')) (Inr (Some ''a dog avatar'')))
      (trace (world_with cat_row) @ [Call_get_existing_description]) ''qq'' ''10001''
      = Inr (Some ''p1'')
   \<and> find (\<lambda>r. person_id r = ''p1'') (table (world_with cat_row)) = Some cat_row
   \<and> head_description cat_row = Some ''a cat avatar''
   \<and> analyze_and_store (sample_env None (Inr (200, ''avatar'')) (Inr (Some ''a dog avatar'')))
        ''10001'' ''qq'' False None (world_with cat_row)
       = (Inr (True, ''a cat avatar''),
          \<lparr>table = [cat_row],
           trace = [Call_get_existing_description, Person_api, Call_get_avatar_description,
                    Db_select]\<rparr>)"
  using cached_description_short_circuit
    [where env = "sample_env None (Inr (200, ''avatar'')) (Inr (Some ''a dog avatar''))"
       and w = "world_with cat_row" and plat = "''qq''" and uid = "''10001''"
       and pid = "''p1''" and row = cat_row and description = "''a cat avatar''"
       and custom_prompt = None]
  by (simp add: sample_defs)

text \<open>
  Claim C2. Whenever the fetcher is invoked by \<^verbatim>\<open>analyze_and_store\<close> (the update is forced,
  or the look-up of step 1 gave nothing truthy) and returns \<^verbatim>\<open>None\<close>, the result is
  \<^verbatim>\<open>False\<close> with the message of a failed fetch; the run ends with the fetch, the table is
  unchanged, and neither \<^verbatim>\<open>_analyze_avatar\<close> nor \<^verbatim>\<open>_store_description\<close> nor
  \<^verbatim>\<open>set_avatar_description\<close> nor an UPDATE or INSERT has been invoked. (The source's
  message is the Chinese text \<open>msg_fetch_failed\<close>, which the specification renders as
  "avatar unavailable".)
\<close>

theorem fetch_failure_short_circuit:
  assumes "if force_update then w1 = w
           else \<exists>existing. get_existing_description env uid plat w = (Inr existing, w1)
                           \<and> \<not> truthy existing"
      and "fst (fetch_avatar env uid plat w1) = Inr None"
  shows "analyze_and_store env uid plat force_update custom_prompt w =
           (Inr (False, msg_fetch_failed),
            w1\<lparr>trace := trace w1 @ Call_fetch_avatar # (if plat = ''qq'' then [Http_get] else [])\<rparr>)
         \<and> table w1 = table w
         \<and> calls Call_fetch_avatar (snd (analyze_and_store env uid plat force_update custom_prompt w))
             = calls Call_fetch_avatar w + 1
         \<and> calls Call_analyze_avatar (snd (analyze_and_store env uid plat force_update custom_prompt w))
             = calls Call_analyze_avatar w
         \<and> calls Call_store_description (snd (analyze_and_store env uid plat force_update custom_prompt w))
             = calls Call_store_description w
         \<and> calls Call_set_avatar_description (snd (analyze_and_store env uid plat force_update custom_prompt w))
             = calls Call_set_avatar_description w
         \<and> calls Db_update (snd (analyze_and_store env uid plat force_update custom_prompt w))
             = calls Db_update w
         \<and> calls Db_insert (snd (analyze_and_store env uid plat force_update custom_prompt w))
             = calls Db_insert w"
proof -
  let ?w' = "w1\<lparr>trace := trace w1 @ Call_fetch_avatar # (if plat = ''qq'' then [Http_get] else [])\<rparr>"
  have steps: "fetch_analyze_store env uid plat custom_prompt w1 = (Inr (False, msg_fetch_failed), ?w')"
    using assms(2) by (rule fetch_analyze_store_no_avatar)
  have run: "analyze_and_store env uid plat force_update custom_prompt w
               = (Inr (False, msg_fetch_failed), ?w')"
  proof (cases force_update)
    case True
    with assms(1) steps show ?thesis
      by (simp add: analyze_and_store_def)
  next
    case False
    with assms(1) obtain existing
      where "get_existing_description env uid plat w = (Inr existing, w1)" and "\<not> truthy existing"
      by auto
    with False steps show ?thesis
      by (cases existing) (simp_all add: analyze_and_store_def prog_defs)
  qed
  have before: "table w1 = table w \<and> (\<forall>ev. ev \<notin> {Call_get_existing_description, Person_api,
                   Call_get_avatar_description, Db_select} \<longrightarrow> calls ev w1 = calls ev w)"
  proof (cases force_update)
    case True
    with assms(1) show ?thesis by simp
  next
    case False
    with assms(1) have "w1 = snd (get_existing_description env uid plat w)"
      by auto
    then show ?thesis
      using get_existing_description_frame(2) get_existing_description_calls by blast
  qed
  have "calls Call_fetch_avatar ?w' = calls Call_fetch_avatar w + 1"
    using before by (simp add: calls_extend)
  moreover have "calls Call_analyze_avatar ?w' = calls Call_analyze_avatar w"
    and "calls Call_store_description ?w' = calls Call_store_description w"
    and "calls Call_set_avatar_description ?w' = calls Call_set_avatar_description w"
    and "calls Db_update ?w' = calls Db_update w"
    and "calls Db_insert ?w' = calls Db_insert w"
    using before by (simp_all add: calls_extend)
  ultimately show ?thesis
    using run before by simp
qed

theorem fetch_failure_short_circuit_witness:
  "fst (fetch_avatar (sample_env None (Inr (404, [])) (Inr None)) ''10001'' ''qq''
          \<lparr>table = [], trace = [Call_get_existing_description, Person_api,
                                Call_get_avatar_description, Db_select]\<rparr>) = Inr None
   \<and> analyze_and_store (sample_env None (Inr (404, [])) (Inr None))
        ''10001'' ''qq'' False None empty_world
       = (Inr (False, msg_fetch_failed),
          \<lparr>table = [],
           trace = [Call_get_existing_description, Person_api, Call_get_avatar_description,
                    Db_select, Call_fetch_avatar, Http_get]\<rparr>)
   \<and> fst (fetch_avatar (sample_env None (Inr (200, ''avatar'')) (Inr (Some ''a cat avatar'')))
            ''10001'' ''discord'' (world_with cat_row)) = Inr None
   \<and> analyze_and_store (sample_env None (Inr (200, ''avatar'')) (Inr (Some ''a cat avatar'')))
        ''10001'' ''discord'' True None (world_with cat_row)
       = (Inr (False, msg_fetch_failed), \<lparr>table = [cat_row], trace = [Call_fetch_avatar]\<rparr>)"
proof -
  let ?env = "sample_env None (Inr (404, [])) (Inr None)"
  let ?w1 = "\<lparr>table = [], trace = [Call_get_existing_description, Person_api,
                                    Call_get_avatar_description, Db_select]\<rparr>"
  let ?env2 = "sample_env None (Inr (200, ''avatar'')) (Inr (Some ''a cat avatar''))"
  have h1: "if False then ?w1 = empty_world
            else \<exists>existing. get_existing_description ?env ''10001'' ''qq'' empty_world
                               = (Inr existing, ?w1) \<and> \<not> truthy existing"
    by (simp add: get_existing_description_def get_avatar_description_result prog_defs
          sample_defs)
  have h2: "fst (fetch_avatar ?env ''10001'' ''qq'' ?w1) = Inr None"
    by (simp add: fetch_avatar_def prog_defs sample_defs)
  have h3: "if True then world_with cat_row = world_with cat_row
            else \<exists>existing. get_existing_description ?env2 ''10001'' ''discord''
                               (world_with cat_row) = (Inr existing, world_with cat_row)
                             \<and> \<not> truthy existing"
    by simp
  have h4: "fst (fetch_avatar ?env2 ''10001'' ''discord'' (world_with cat_row)) = Inr None"
    by (simp add: fetch_avatar_def prog_defs sample_defs)
  show ?thesis
    using h2 h4
      fetch_failure_short_circuit [OF h1 h2, of None]
      fetch_failure_short_circuit [OF h3 h4, of None]
    by (simp add: sample_defs)
qed

text \<open>
  Claim C3. When no model is registered under \<^verbatim>\<open>vision_general\<close>, or the registry or the
  request raises, or the model's response is \<^verbatim>\<open>None\<close> or empty, \<^verbatim>\<open>_analyze_avatar\<close> returns
  the fixed fallback description, which is not empty: it returns a text (never \<^verbatim>\<open>None\<close>)
  and does not raise.
\<close>

theorem describer_total_fallback:
  assumes "case vision_outcome env avatar_data custom_prompt w of
             Unconfigured \<Rightarrow> True
           | Faulted e \<Rightarrow> True
           | Answered response \<Rightarrow> \<not> truthy response"
  shows "fst (analyze_avatar env avatar_data custom_prompt w) = Inr fallback_description
         \<and> fallback_description \<noteq> []"
  using assms
  by (auto simp: analyze_avatar_result fallback_nonempty
        split: vision_outcome.splits option.splits)

theorem describer_total_fallback_witness:
  "vision_outcome
      (constant_env (Inr (Some ''p1'')) None 1700000100 (Inr (200, ''avatar''))
         (Inr no_registry) (Inr (Some ''a cat avatar'')))
      ''avatar'' None empty_world = Unconfigured
   \<and> fst (analyze_avatar
            (constant_env (Inr (Some ''p1'')) None 1700000100 (Inr (200, ''avatar''))
               (Inr no_registry) (Inr (Some ''a cat avatar'')))
            ''avatar'' None empty_world) = Inr fallback_description
   \<and> vision_outcome (sample_env None (Inr (200, ''avatar'')) (Inl (Exception ''timeout'')))
        ''avatar'' None empty_world = Faulted (Exception ''timeout'')
   \<and> fst (analyze_avatar (sample_env None (Inr (200, ''avatar'')) (Inl (Exception ''timeout'')))
            ''avatar'' None empty_world) = Inr fallback_description
   \<and> vision_outcome (sample_env None (Inr (200, ''avatar'')) (Inr (Some [])))
        ''avatar'' None empty_world = Answered (Some [])
   \<and> fst (analyze_avatar (sample_env None (Inr (200, ''avatar'')) (Inr (Some [])))
            ''avatar'' None empty_world) = Inr fallback_description
   \<and> vision_outcome (sample_env None (Inr (200, ''avatar'')) (Inr None))
        ''avatar'' None empty_world = Answered None
   \<and> fst (analyze_avatar (sample_env None (Inr (200, ''avatar'')) (Inr None))
            ''avatar'' None empty_world) = Inr fallback_description"
  using
    describer_total_fallback
      [of "constant_env (Inr (Some ''p1'')) None 1700000100 (Inr (200, ''avatar''))
             (Inr no_registry) (Inr (Some ''a cat avatar''))" "''avatar''" None empty_world]
    describer_total_fallback
      [of "sample_env None (Inr (200, ''avatar'')) (Inl (Exception ''timeout''))"
          "''avatar''" None empty_world]
    describer_total_fallback
      [of "sample_env None (Inr (200, ''avatar'')) (Inr (Some []))"
          "''avatar''" None empty_world]
    describer_total_fallback
      [of "sample_env None (Inr (200, ''avatar'')) (Inr None)"
          "''avatar''" None empty_world]
  by (simp add: vision_outcome_def sample_defs)









end
